theory Spec2Isabelle
  imports Complex_Main "HOL-Library.Multiset"
begin

section \<open>Data model\<close>

text \<open>
  The handlers of \<^verbatim>\<open>app/api/auth.py\<close> and \<^verbatim>\<open>app/api/calculations.py\<close> are embedded
  as functions over an explicit store. A UUID is a natural number, an instant is a
  number of minutes, a table is the list of its rows in the order they were added, and
  \<^verbatim>\<open>query(...).filter(p).first()\<close> is \<^const>\<open>find\<close> on that list. Every
  \<^verbatim>\<open>raise HTTPException\<close> is a left value carrying the status code, the detail and
  the headers of the source.
\<close>

type_synonym uuid = nat
type_synonym instant = nat

datatype error =
    HTTPException nat string "(string \<times> string) list"
  | DivisionByZero

text \<open>
  The columns of \<^verbatim>\<open>User\<close> that the handlers read or write. The primary key
  \<^verbatim>\<open>id\<close> is named \<open>uid\<close>.
\<close>

record user =
  uid :: uuid
  username :: string
  email :: string
  password :: string
  first_name :: "string option"
  is_active :: bool
  is_verified :: bool
  verification_token :: "string option"
  verification_token_expires :: "instant option"
  reset_token :: "string option"
  reset_token_expires :: "instant option"

text \<open>
  Modelled from the spec: the values of \<^verbatim>\<open>Calculation.operation\<close>
  (app/models/calculation.py and app/schemas/calculation.py are not among the sources).
  Section 3: one of a fixed enumerated set, add, subtract, multiply, divide.
\<close>

datatype operation = Add | Subtract | Multiply | Divide

text \<open>
  The columns of \<^verbatim>\<open>Calculation\<close> that the handlers read or write; the primary key
  \<^verbatim>\<open>id\<close> is named \<open>calc_id\<close>. The operands are numbers, taken as reals. The
  result is absent until \<^verbatim>\<open>calculate()\<close> has run.
\<close>

record calculation =
  calc_id :: uuid
  user_id :: uuid
  operation :: operation
  operand1 :: real
  operand2 :: real
  result :: "real option"

record db =
  users :: "user list"
  calculations :: "calculation list"

text \<open>The settings of \<^verbatim>\<open>app/core/config.py\<close> that the handlers use.\<close>

record settings =
  ACCESS_TOKEN_EXPIRE_MINUTES :: nat
  REFRESH_TOKEN_EXPIRE_DAYS :: nat
  EMAIL_VERIFICATION_EXPIRE_HOURS :: nat
  PASSWORD_RESET_EXPIRE_MINUTES :: nat

definition default_settings :: settings where
  "default_settings =
     \<lparr>ACCESS_TOKEN_EXPIRE_MINUTES = 30, REFRESH_TOKEN_EXPIRE_DAYS = 7,
      EMAIL_VERIFICATION_EXPIRE_HOURS = 24, PASSWORD_RESET_EXPIRE_MINUTES = 60\<rparr>"

text \<open>
  A row obtained with \<^verbatim>\<open>first()\<close> and then assigned to is written back in place: the
  first row that satisfies the filter is replaced, the others keep their position.
\<close>

fun update_first :: "('a \<Rightarrow> bool) \<Rightarrow> ('a \<Rightarrow> 'a) \<Rightarrow> 'a list \<Rightarrow> 'a list" where
  "update_first P f [] = []"
| "update_first P f (x # xs) = (if P x then f x # xs else x # update_first P f xs)"

text \<open>\<^verbatim>\<open>db.delete(row)\<close> for a row obtained with \<^verbatim>\<open>first()\<close>.\<close>

fun delete_first :: "('a \<Rightarrow> bool) \<Rightarrow> 'a list \<Rightarrow> 'a list" where
  "delete_first P [] = []"
| "delete_first P (x # xs) = (if P x then xs else x # delete_first P xs)"

section \<open>Token issuer\<close>

datatype token_kind = Access | Refresh

text \<open>
  A signed token is opaque to the client; the model keeps what decoding it yields: the
  subject, the kind, the expiry instant, and whether the signature verifies under the
  server's key. A client may present any such value.
\<close>

record jwt =
  sub :: uuid
  kind :: token_kind
  exp :: instant
  signature_ok :: bool

text \<open>
  Modelled from the spec: \<^verbatim>\<open>User.create_access_token\<close> and
  \<^verbatim>\<open>User.create_refresh_token\<close> (app/models/user.py is not among the sources).
  Section 4.1: issue(subject, kind, ttl) produces a signed token encoding the subject, a
  kind discriminator and the expiry instant now + ttl; the two lifetimes are configured
  independently.
\<close>

definition create_access_token :: "settings \<Rightarrow> instant \<Rightarrow> uuid \<Rightarrow> jwt" where
  "create_access_token S now subject =
     \<lparr>sub = subject, kind = Access, exp = now + ACCESS_TOKEN_EXPIRE_MINUTES S,
      signature_ok = True\<rparr>"

definition create_refresh_token :: "settings \<Rightarrow> instant \<Rightarrow> uuid \<Rightarrow> jwt" where
  "create_refresh_token S now subject =
     \<lparr>sub = subject, kind = Refresh, exp = now + REFRESH_TOKEN_EXPIRE_DAYS S * 24 * 60,
      signature_ok = True\<rparr>"

text \<open>
  Modelled from the spec: \<^verbatim>\<open>User.verify_token\<close>, as \<^verbatim>\<open>refresh_token\<close> calls it
  (with the token alone). Section 4.1: verify fails when the signature or format is
  wrong and when the token is past its expiry; section 4.2, refresh: the kind must be
  refresh. On success it yields the subject.
\<close>

definition verify_token :: "instant \<Rightarrow> jwt \<Rightarrow> uuid option" where
  "verify_token now t =
     (if signature_ok t \<and> kind t = Refresh \<and> now \<le> exp t then Some (sub t) else None)"

section \<open>User model\<close>

text \<open>
  Modelled from the spec: \<^verbatim>\<open>User.generate_verification_token\<close>. Section 4.1: a
  random opaque string stored on the user with an expiry instant (24h by default). The
  random string drawn is the argument \<open>tok\<close>.
\<close>

definition generate_verification_token :: "settings \<Rightarrow> instant \<Rightarrow> string \<Rightarrow> user \<Rightarrow> user" where
  "generate_verification_token S now tok u =
     u\<lparr>verification_token := Some tok,
       verification_token_expires := Some (now + EMAIL_VERIFICATION_EXPIRE_HOURS S * 60)\<rparr>"

text \<open>
  Modelled from the spec: \<^verbatim>\<open>User.verify_email_token\<close>. Section 4.2, verify_email:
  fails if past expiry; on success sets is_verified and clears the token fields. The
  pair is the boolean returned and the user as the call leaves it.
\<close>

definition verify_email_token :: "instant \<Rightarrow> string \<Rightarrow> user \<Rightarrow> bool \<times> user" where
  "verify_email_token now token u =
     (if verification_token u = Some token \<and>
         (case verification_token_expires u of None \<Rightarrow> False | Some e \<Rightarrow> now \<le> e)
      then (True, u\<lparr>is_verified := True, verification_token := None,
                    verification_token_expires := None\<rparr>)
      else (False, u))"

text \<open>
  Modelled from the spec: \<^verbatim>\<open>User.generate_reset_token\<close>. Sections 4.1 and 4.2: a
  random opaque string stored on the user with an expiry instant (1h by default).
\<close>

definition generate_reset_token :: "settings \<Rightarrow> instant \<Rightarrow> string \<Rightarrow> user \<Rightarrow> user" where
  "generate_reset_token S now tok u =
     u\<lparr>reset_token := Some tok,
       reset_token_expires := Some (now + PASSWORD_RESET_EXPIRE_MINUTES S)\<rparr>"

text \<open>
  Modelled from the spec: \<^verbatim>\<open>User.verify_reset_token\<close>. Section 4.2, reset_password:
  fails if past expiry. It changes nothing; the caller clears the fields.
\<close>

definition verify_reset_token :: "instant \<Rightarrow> string \<Rightarrow> user \<Rightarrow> bool" where
  "verify_reset_token now token u =
     (reset_token u = Some token \<and>
      (case reset_token_expires u of None \<Rightarrow> False | Some e \<Rightarrow> now \<le> e))"

record auth_result =
  ar_access_token :: jwt
  ar_refresh_token :: jwt
  ar_token_type :: string
  ar_expires_at :: instant
  ar_user :: user

text \<open>
  Modelled from the spec: \<^verbatim>\<open>User.authenticate\<close>. Section 4.2, authenticate: looks the
  user up by username or email; nothing is returned when no user is found or the
  password does not match; on a match one access and one refresh token are issued and
  returned with the expiry and the user. The checks of is_verified and is_active are
  those of \<^verbatim>\<open>login\<close> below. The credential hasher's verification is the argument
  \<open>verify_password\<close> (plain password, stored hash).
\<close>

definition authenticate ::
  "settings \<Rightarrow> (string \<Rightarrow> string \<Rightarrow> bool) \<Rightarrow> instant \<Rightarrow> db \<Rightarrow> string \<Rightarrow> string \<Rightarrow> auth_result option" where
  "authenticate S verify_password now d username_or_email pw =
     (case find (\<lambda>u. username u = username_or_email \<or> email u = username_or_email) (users d) of
        None \<Rightarrow> None
      | Some u \<Rightarrow>
          if verify_password pw (password u)
          then Some \<lparr>ar_access_token = create_access_token S now (uid u),
                     ar_refresh_token = create_refresh_token S now (uid u),
                     ar_token_type = ''bearer'',
                     ar_expires_at = now + ACCESS_TOKEN_EXPIRE_MINUTES S,
                     ar_user = u\<rparr>
          else None)"

section \<open>Authentication routes\<close>

text \<open>
  The e-mails handed to the background tasks: recipient, username and the token (the
  first name for the welcome e-mail). The base URL is a constant of the settings.
\<close>

datatype mail =
    VerificationEmail string string string
  | WelcomeEmail string string "string option"
  | PasswordResetEmail string string string

text \<open>The body of \<^verbatim>\<open>TokenResponse\<close>; its keys carry the prefix \<open>tr_\<close>.\<close>

record token_response =
  tr_access_token :: jwt
  tr_refresh_token :: jwt
  tr_token_type :: string
  tr_expires_at :: instant
  tr_user :: user

record verify_email_response =
  ve_message :: string
  ve_email :: string
  ve_is_verified :: bool

text \<open>
  \<^verbatim>\<open>verify_email\<close>: the user holding the token is looked up; an unknown token and an
  expired one are both status 400; otherwise the change made by
  \<^verbatim>\<open>verify_email_token\<close> is committed and the welcome e-mail is queued.
\<close>

definition verify_email ::
  "instant \<Rightarrow> string \<Rightarrow> db \<Rightarrow> (error + verify_email_response) \<times> db \<times> mail list" where
  "verify_email now token d =
     (case find (\<lambda>u. verification_token u = Some token) (users d) of
        None \<Rightarrow> (Inl (HTTPException 400 ''Invalid verification token'' []), d, [])
      | Some u \<Rightarrow>
          (case verify_email_token now token u of
             (False, _) \<Rightarrow>
               (Inl (HTTPException 400
                  ''Verification token has expired. Please request a new one.'' []), d, [])
           | (True, u') \<Rightarrow>
               (Inr \<lparr>ve_message = ''Email verified successfully! You can now log in.'',
                     ve_email = email u', ve_is_verified = True\<rparr>,
                d\<lparr>users := update_first (\<lambda>u. verification_token u = Some token) (\<lambda>_. u') (users d)\<rparr>,
                [WelcomeEmail (email u') (username u') (first_name u')])))"

text \<open>\<^verbatim>\<open>resend_verification_email\<close>; \<open>tok\<close> is the random token drawn.\<close>

definition resend_verification_email ::
  "settings \<Rightarrow> instant \<Rightarrow> string \<Rightarrow> string \<Rightarrow> db \<Rightarrow> (error + string) \<times> db \<times> mail list" where
  "resend_verification_email S now tok addr d =
     (case find (\<lambda>u. email u = addr) (users d) of
        None \<Rightarrow> (Inr ''If the email exists, a verification link has been sent.'', d, [])
      | Some u \<Rightarrow>
          if is_verified u
          then (Inl (HTTPException 400 ''Email is already verified'' []), d, [])
          else (let u' = generate_verification_token S now tok u in
                (Inr ''Verification email sent successfully'',
                 d\<lparr>users := update_first (\<lambda>u. email u = addr) (\<lambda>_. u') (users d)\<rparr>,
                 [VerificationEmail (email u') (username u') tok])))"

text \<open>\<^verbatim>\<open>login\<close>.\<close>

definition login ::
  "settings \<Rightarrow> (string \<Rightarrow> string \<Rightarrow> bool) \<Rightarrow> instant \<Rightarrow> db \<Rightarrow> string \<Rightarrow> string \<Rightarrow> error + token_response" where
  "login S verify_password now d form_username form_password =
     (case authenticate S verify_password now d form_username form_password of
        None \<Rightarrow>
          Inl (HTTPException 401 ''Incorrect username or password''
                 [(''WWW-Authenticate'', ''Bearer'')])
      | Some r \<Rightarrow>
          if \<not> is_verified (ar_user r)
          then Inl (HTTPException 403
                 ''Please verify your email before logging in. Check your inbox for the verification link.'' [])
          else if \<not> is_active (ar_user r)
          then Inl (HTTPException 403 ''Account is inactive. Please contact support.'' [])
          else Inr \<lparr>tr_access_token = ar_access_token r,
                    tr_refresh_token = ar_refresh_token r,
                    tr_token_type = ar_token_type r, tr_expires_at = ar_expires_at r,
                    tr_user = ar_user r\<rparr>)"

text \<open>\<^verbatim>\<open>refresh_token\<close>.\<close>

definition refresh_token :: "settings \<Rightarrow> instant \<Rightarrow> db \<Rightarrow> jwt \<Rightarrow> error + token_response" where
  "refresh_token S now d presented =
     (case verify_token now presented of
        None \<Rightarrow>
          Inl (HTTPException 401 ''Invalid refresh token'' [(''WWW-Authenticate'', ''Bearer'')])
      | Some i \<Rightarrow>
          (case find (\<lambda>u. uid u = i) (users d) of
             None \<Rightarrow> Inl (HTTPException 401 ''User not found or inactive'' [])
           | Some u \<Rightarrow>
               if \<not> is_active u
               then Inl (HTTPException 401 ''User not found or inactive'' [])
               else Inr \<lparr>tr_access_token = create_access_token S now (uid u),
                         tr_refresh_token = create_refresh_token S now (uid u),
                         tr_token_type = ''bearer'',
                         tr_expires_at = now + ACCESS_TOKEN_EXPIRE_MINUTES S,
                         tr_user = u\<rparr>))"

text \<open>\<^verbatim>\<open>forgot_password\<close>; \<open>tok\<close> is the random token drawn.\<close>

definition forgot_password ::
  "settings \<Rightarrow> instant \<Rightarrow> string \<Rightarrow> string \<Rightarrow> db \<Rightarrow> (error + string) \<times> db \<times> mail list" where
  "forgot_password S now tok addr d =
     (case find (\<lambda>u. email u = addr) (users d) of
        None \<Rightarrow> (Inr ''If the email exists, a password reset link has been sent.'', d, [])
      | Some u \<Rightarrow>
          (let u' = generate_reset_token S now tok u in
           (Inr ''If the email exists, a password reset link has been sent.'',
            d\<lparr>users := update_first (\<lambda>u. email u = addr) (\<lambda>_. u') (users d)\<rparr>,
            [PasswordResetEmail (email u') (username u') tok])))"

text \<open>
  \<^verbatim>\<open>reset_password\<close>; the credential hasher's \<^verbatim>\<open>User.hash_password\<close> is the argument
  \<open>hash_password\<close>. A password is the list of its characters, so \<^verbatim>\<open>len\<close> is
  \<^const>\<open>length\<close>.
\<close>

definition reset_password ::
  "(string \<Rightarrow> string) \<Rightarrow> instant \<Rightarrow> string \<Rightarrow> string \<Rightarrow> db \<Rightarrow> (error + string) \<times> db" where
  "reset_password hash_password now token new_password d =
     (case find (\<lambda>u. reset_token u = Some token) (users d) of
        None \<Rightarrow> (Inl (HTTPException 400 ''Invalid reset token'' []), d)
      | Some u \<Rightarrow>
          if \<not> verify_reset_token now token u
          then (Inl (HTTPException 400 ''Reset token has expired. Please request a new one.'' []), d)
          else if length new_password < 6
          then (Inl (HTTPException 400 ''Password must be at least 6 characters long'' []), d)
          else (Inr ''Password reset successfully. You can now log in with your new password.'',
                d\<lparr>users := update_first (\<lambda>u. reset_token u = Some token)
                     (\<lambda>u. u\<lparr>password := hash_password new_password, reset_token := None,
                             reset_token_expires := None\<rparr>) (users d)\<rparr>))"

section \<open>Calculation model\<close>

text \<open>
  Modelled from the spec: \<^verbatim>\<open>Calculation.calculate\<close> (app/models/calculation.py is not
  among the sources). Sections 3 and 4.3: the result is derived from the operation and
  the two operands, and dividing by zero is rejected with DivisionByZero.
\<close>

definition compute :: "operation \<Rightarrow> real \<Rightarrow> real \<Rightarrow> error + real" where
  "compute opn a b =
     (case opn of
        Add \<Rightarrow> Inr (a + b)
      | Subtract \<Rightarrow> Inr (a - b)
      | Multiply \<Rightarrow> Inr (a * b)
      | Divide \<Rightarrow> if b = 0 then Inl DivisionByZero else Inr (a / b))"

definition calculate :: "calculation \<Rightarrow> error + calculation" where
  "calculate c =
     (case compute (operation c) (operand1 c) (operand2 c) of
        Inl e \<Rightarrow> Inl e
      | Inr r \<Rightarrow> Inr (c\<lparr>result := Some r\<rparr>))"


section \<open>Calculation routes\<close>

text \<open>The body of \<^verbatim>\<open>CalculationBase\<close>.\<close>

record calculation_base =
  cb_operation :: operation
  cb_operand1 :: real
  cb_operand2 :: real

text \<open>
  Modelled from the spec: the fields of \<^verbatim>\<open>CalculationUpdate\<close>
  (app/schemas/calculation.py is not among the sources). Section 4.3, update: only the
  supplied fields are applied; the fields are those of a create request. The list holds
  the fields a request sets, as \<^verbatim>\<open>model_dump(exclude_unset=True)\<close> lists them.
\<close>

datatype assignment = Operation operation | Operand1 real | Operand2 real

text \<open>The loop \<^verbatim>\<open>for field, value in update_data.items(): setattr(...)\<close>.\<close>

fun setattrs :: "assignment list \<Rightarrow> calculation \<Rightarrow> calculation" where
  "setattrs [] c = c"
| "setattrs (Operation v # fs) c = setattrs fs (c\<lparr>operation := v\<rparr>)"
| "setattrs (Operand1 v # fs) c = setattrs fs (c\<lparr>operand1 := v\<rparr>)"
| "setattrs (Operand2 v # fs) c = setattrs fs (c\<lparr>operand2 := v\<rparr>)"

text \<open>The filter shared by the routes that address one calculation.\<close>

definition owned :: "uuid \<Rightarrow> user \<Rightarrow> calculation \<Rightarrow> bool" where
  "owned calculation_id current_user c =
     (calc_id c = calculation_id \<and> user_id c = uid current_user)"

text \<open>
  \<^verbatim>\<open>create_calculation\<close>; \<open>new_id\<close> is the primary key the store assigns. An
  exception of \<^verbatim>\<open>calculate()\<close> leaves the handler before \<^verbatim>\<open>db.add\<close>.
\<close>

definition create_calculation ::
  "uuid \<Rightarrow> user \<Rightarrow> calculation_base \<Rightarrow> db \<Rightarrow> (error + calculation) \<times> db" where
  "create_calculation new_id current_user body d =
     (case calculate \<lparr>calc_id = new_id, user_id = uid current_user,
                      operation = cb_operation body, operand1 = cb_operand1 body,
                      operand2 = cb_operand2 body, result = None\<rparr> of
        Inl e \<Rightarrow> (Inl e, d)
      | Inr c \<Rightarrow> (Inr c, d\<lparr>calculations := calculations d @ [c]\<rparr>))"

text \<open>
  \<^verbatim>\<open>list_calculations\<close>. The query has no ordering clause, so the rows come in an
  order of the store's choosing, which may differ from one query to the next: the
  argument \<open>scan\<close> is the store's reading of the table for this query, a
  rearrangement of its rows. \<^verbatim>\<open>skip\<close> and \<^verbatim>\<open>limit\<close> are unvalidated integers; the
  store refuses a negative offset or limit, which surfaces as status 500.
\<close>

definition list_calculations ::
  "(calculation list \<Rightarrow> calculation list) \<Rightarrow> int \<Rightarrow> int \<Rightarrow> user \<Rightarrow> db \<Rightarrow>
   error + calculation list" where
  "list_calculations scan skip limit current_user d =
     (if skip < 0 \<or> limit < 0 then Inl (HTTPException 500 ''Internal Server Error'' [])
      else Inr (take (nat limit) (drop (nat skip)
             (filter (\<lambda>c. user_id c = uid current_user) (scan (calculations d))))))"

text \<open>\<^verbatim>\<open>get_calculation\<close>.\<close>

definition get_calculation :: "uuid \<Rightarrow> user \<Rightarrow> db \<Rightarrow> error + calculation" where
  "get_calculation calculation_id current_user d =
     (case find (owned calculation_id current_user) (calculations d) of
        None \<Rightarrow> Inl (HTTPException 404 ''Calculation not found'' [])
      | Some c \<Rightarrow> Inr c)"

text \<open>
  \<^verbatim>\<open>update_calculation\<close>. An exception of \<^verbatim>\<open>calculate()\<close> leaves the handler before
  \<^verbatim>\<open>db.commit()\<close>, so nothing is stored.
\<close>

definition update_calculation ::
  "uuid \<Rightarrow> assignment list \<Rightarrow> user \<Rightarrow> db \<Rightarrow> (error + calculation) \<times> db" where
  "update_calculation calculation_id update_data current_user d =
     (case find (owned calculation_id current_user) (calculations d) of
        None \<Rightarrow> (Inl (HTTPException 404 ''Calculation not found'' []), d)
      | Some db_calculation \<Rightarrow>
          (case calculate (setattrs update_data db_calculation) of
             Inl e \<Rightarrow> (Inl e, d)
           | Inr c \<Rightarrow>
               (Inr c, d\<lparr>calculations :=
                  update_first (owned calculation_id current_user) (\<lambda>_. c) (calculations d)\<rparr>)))"

text \<open>\<^verbatim>\<open>delete_calculation\<close>; the successful response (204) has no body.\<close>

definition delete_calculation :: "uuid \<Rightarrow> user \<Rightarrow> db \<Rightarrow> (error + unit) \<times> db" where
  "delete_calculation calculation_id current_user d =
     (case find (owned calculation_id current_user) (calculations d) of
        None \<Rightarrow> (Inl (HTTPException 404 ''Calculation not found'' []), d)
      | Some db_calculation \<Rightarrow>
          (Inr (), d\<lparr>calculations :=
             delete_first (owned calculation_id current_user) (calculations d)\<rparr>))"

text \<open>
  \<^verbatim>\<open>get_calculation_stats\<close>. The grouped query yields one row per operation that
  occurs among the user's calculations, so the dictionary has no entry for the others.
\<close>

record stats_user =
  su_id :: uuid
  su_username :: string
  su_email :: string

record stats =
  total_calculations :: nat
  operations :: "operation \<Rightarrow> nat option"
  stats_user :: stats_user

definition get_calculation_stats :: "user \<Rightarrow> db \<Rightarrow> stats" where
  "get_calculation_stats current_user d =
     (let mine = filter (\<lambda>c. user_id c = uid current_user) (calculations d) in
      \<lparr>total_calculations = length mine,
       operations = (\<lambda>opn. if opn \<in> operation ` set mine
                           then Some (length (filter (\<lambda>c. operation c = opn) mine))
                           else None),
       stats_user = \<lparr>su_id = uid current_user, su_username = username current_user,
                     su_email = email current_user\<rparr>\<rparr>)"

section \<open>Example data\<close>

text \<open>
  A small store used to evaluate the handlers: three users (one unverified, one
  verified, one unverified and deactivated) and three calculations. The stand-in
  credential hasher prefixes the password.
\<close>

definition example_verify :: "string \<Rightarrow> string \<Rightarrow> bool" where
  "example_verify pw h = (h = ''hash:'' @ pw)"

definition example_hash :: "string \<Rightarrow> string" where
  "example_hash pw = ''hash:'' @ pw"

definition alice :: user where
  "alice = \<lparr>uid = 1, username = ''alice'', email = ''alice@example.com'',
     password = ''hash:secret1'', first_name = None, is_active = True, is_verified = False,
     verification_token = Some ''vt-alice'', verification_token_expires = Some 1440,
     reset_token = None, reset_token_expires = None\<rparr>"

definition bob :: user where
  "bob = \<lparr>uid = 2, username = ''bob'', email = ''bob@example.com'',
     password = ''hash:secret2'', first_name = Some ''Bob'', is_active = True, is_verified = True,
     verification_token = None, verification_token_expires = None,
     reset_token = None, reset_token_expires = None\<rparr>"

definition carol :: user where
  "carol = \<lparr>uid = 3, username = ''carol'', email = ''carol@example.com'',
     password = ''hash:secret3'', first_name = None, is_active = False, is_verified = False,
     verification_token = Some ''vt-carol'', verification_token_expires = Some 1440,
     reset_token = None, reset_token_expires = None\<rparr>"

definition calc_a :: calculation where
  "calc_a = \<lparr>calc_id = 10, user_id = 1, operation = Add, operand1 = 6, operand2 = 3,
     result = Some 9\<rparr>"

definition calc_b :: calculation where
  "calc_b = \<lparr>calc_id = 11, user_id = 2, operation = Divide, operand1 = 6, operand2 = 3,
     result = Some 2\<rparr>"

definition calc_c :: calculation where
  "calc_c = \<lparr>calc_id = 12, user_id = 2, operation = Add, operand1 = 1, operand2 = 1,
     result = Some 2\<rparr>"

definition example_db :: db where
  "example_db = \<lparr>users = [alice, bob, carol], calculations = [calc_a, calc_b, calc_c]\<rparr>"

definition stale_db :: db where
  "stale_db = \<lparr>users = [alice, bob],
     calculations = [\<lparr>calc_id = 20, user_id = 2, operation = Multiply, operand1 = 4,
                      operand2 = 5, result = Some 0\<rparr>]\<rparr>"

lemmas example_defs = example_verify_def example_hash_def alice_def bob_def carol_def
  calc_a_def calc_b_def calc_c_def example_db_def default_settings_def

section \<open>Facts about the store\<close>

lemma find_holds: "find Q xs = Some y \<Longrightarrow> Q y"
  by (induction xs) (auto split: if_splits)

lemma find_member: "find Q xs = Some y \<Longrightarrow> y \<in> set xs"
  by (induction xs) (auto split: if_splits)

lemma find_none: "\<forall>x\<in>set xs. \<not> P x \<Longrightarrow> find P xs = None"
  by (simp add: find_None_iff)

text \<open>
  When two filters select the same row, writing to it through the first is seen
  through the second, as long as the written row still passes the second.
\<close>

lemma find_update_first:
  "find P xs = Some y \<Longrightarrow> find Q xs = Some y \<Longrightarrow> Q (f y) \<Longrightarrow>
   find Q (update_first P f xs) = Some (f y)"
proof (induction xs)
  case Nil
  then show ?case by simp
next
  case (Cons x xs)
  show ?case
  proof (cases "P x")
    case True
    with Cons.prems(1) have xy: "x = y" by simp
    from Cons.prems(2) have "Q y" by (rule find_holds)
    with True xy Cons.prems(3) show ?thesis by simp
  next
    case False
    with Cons.prems(1) have py: "find P xs = Some y" by simp
    then have "P y" by (rule find_holds)
    with False have "x \<noteq> y" by auto
    with Cons.prems(2) have nq: "\<not> Q x" and qy: "find Q xs = Some y"
      by (auto split: if_splits)
    from Cons.IH [OF py qy Cons.prems(3)] False nq show ?thesis by simp
  qed
qed

lemma update_first_none: "\<forall>x\<in>set xs. \<not> P x \<Longrightarrow> update_first P f xs = xs"
  by (induction xs) auto

text \<open>A value that no row holds is found, once written, exactly on the row written.\<close>

lemma find_fresh_update_first:
  "\<forall>x\<in>set xs. \<not> P x \<Longrightarrow> find Q xs = Some y \<Longrightarrow> P (g y) \<Longrightarrow>
   find P (update_first Q g xs) = Some (g y)"
  by (induction xs) (auto split: if_splits)

text \<open>Written on one row and then cleared from the row that holds it, the value is gone.\<close>

lemma consumed_update_first:
  "\<forall>x\<in>set xs. \<not> P x \<Longrightarrow> \<forall>x. \<not> P (h x) \<Longrightarrow>
   \<forall>y\<in>set (update_first P h (update_first Q g xs)). \<not> P y"
  by (induction xs) (auto simp: update_first_none)

text \<open>Rows outside a filter are untouched by a write or a delete through it.\<close>

lemma filter_update_first:
  "\<forall>x. P x \<longrightarrow> \<not> R x \<Longrightarrow> \<forall>x. P x \<longrightarrow> \<not> R (f x) \<Longrightarrow>
   filter R (update_first P f xs) = filter R xs"
  by (induction xs) auto

lemma filter_delete_first:
  "\<forall>x. P x \<longrightarrow> \<not> R x \<Longrightarrow> filter R (delete_first P xs) = filter R xs"
  by (induction xs) auto

text \<open>Facts about the calculation handlers.\<close>

lemma setattrs_keys:
  "calc_id (setattrs fs c) = calc_id c \<and> user_id (setattrs fs c) = user_id c"
  by (induction fs c rule: setattrs.induct) auto

lemma calculate_keys:
  "calculate c = Inr c' \<Longrightarrow> calc_id c' = calc_id c \<and> user_id c' = user_id c"
  by (auto simp: calculate_def split: sum.splits)

lemma calculate_result:
  "calculate c = Inr c' \<Longrightarrow>
   operation c' = operation c \<and> operand1 c' = operand1 c \<and> operand2 c' = operand2 c \<and>
   (\<exists>r. result c' = Some r \<and> compute (operation c) (operand1 c) (operand2 c) = Inr r)"
  by (auto simp: calculate_def split: sum.splits)

lemma update_calculation_success:
  assumes "update_calculation i fs u d = (Inr c, d')"
  shows "\<exists>c0. find (owned i u) (calculations d) = Some c0 \<and>
              calculate (setattrs fs c0) = Inr c \<and>
              d' = d\<lparr>calculations := update_first (owned i u) (\<lambda>_. c) (calculations d)\<rparr>"
  using assms by (auto simp: update_calculation_def split: option.splits sum.splits)

lemma not_owned_find:
  "\<forall>c\<in>set cs. calc_id c = i \<longrightarrow> user_id c \<noteq> uid u \<Longrightarrow> find (owned i u) cs = None"
  by (rule find_none) (auto simp: owned_def)

lemma owned_not_other: "\<forall>c. owned i u c \<longrightarrow> \<not> user_id c \<noteq> uid u"
  by (simp add: owned_def)

lemma update_calculation_others:
  "filter (\<lambda>c. user_id c \<noteq> uid u) (calculations (snd (update_calculation i fs u d))) =
   filter (\<lambda>c. user_id c \<noteq> uid u) (calculations d)"
proof (cases "update_calculation i fs u d")
  case (Pair r d')
  show ?thesis
  proof (cases r)
    case (Inl e)
    with Pair have "d' = d"
      by (auto simp: update_calculation_def split: option.splits sum.splits)
    with Pair show ?thesis by simp
  next
    case (Inr c)
    with Pair have run: "update_calculation i fs u d = (Inr c, d')" by simp
    from update_calculation_success [OF run] obtain c0 where
      found: "find (owned i u) (calculations d) = Some c0" and
      calc: "calculate (setattrs fs c0) = Inr c" and
      d': "d' = d\<lparr>calculations := update_first (owned i u) (\<lambda>_. c) (calculations d)\<rparr>"
      by blast
    from found have "owned i u c0" by (rule find_holds)
    with calculate_keys [OF calc] setattrs_keys [of fs c0]
    have "user_id c = uid u" by (simp add: owned_def)
    then have "\<forall>x. owned i u x \<longrightarrow> \<not> user_id ((\<lambda>_. c) x) \<noteq> uid u" by simp
    from filter_update_first [OF owned_not_other this] d' Pair show ?thesis by simp
  qed
qed

lemma update_calculation_returns_own:
  "fst (update_calculation i fs u d) = Inr c \<Longrightarrow> user_id c = uid u"
proof -
  assume a: "fst (update_calculation i fs u d) = Inr c"
  then have run: "update_calculation i fs u d = (Inr c, snd (update_calculation i fs u d))"
    by (metis prod.collapse)
  from update_calculation_success [OF run] obtain c0 where
    found: "find (owned i u) (calculations d) = Some c0" and
    calc: "calculate (setattrs fs c0) = Inr c"
    by blast
  from found have "owned i u c0" by (rule find_holds)
  with calculate_keys [OF calc] setattrs_keys [of fs c0]
  show ?thesis by (simp add: owned_def)
qed

lemma delete_calculation_others:
  "filter (\<lambda>c. user_id c \<noteq> uid u) (calculations (snd (delete_calculation i u d))) =
   filter (\<lambda>c. user_id c \<noteq> uid u) (calculations d)"
  by (simp add: delete_calculation_def filter_delete_first owned_def split: option.splits)

lemma create_calculation_others:
  "filter (\<lambda>c. user_id c \<noteq> uid u) (calculations (snd (create_calculation new_id u body d))) =
   filter (\<lambda>c. user_id c \<noteq> uid u) (calculations d)"
  by (auto simp: create_calculation_def calculate_def split: sum.splits)

lemma create_calculation_returns_own:
  "fst (create_calculation new_id u body d) = Inr c \<Longrightarrow> user_id c = uid u"
  by (auto simp: create_calculation_def calculate_def split: sum.splits)

lemma list_calculations_own:
  "list_calculations scan skip limit u d = Inr cs \<Longrightarrow> \<forall>c\<in>set cs. user_id c = uid u"
  by (auto simp: list_calculations_def split: if_splits dest!: in_set_takeD in_set_dropD)

text \<open>Facts about the authentication handlers.\<close>

lemma authenticate_Some:
  assumes "authenticate S V now d name pw = Some r"
  shows "find (\<lambda>u. username u = name \<or> email u = name) (users d) = Some (ar_user r) \<and>
         V pw (password (ar_user r))"
  using assms by (auto simp: authenticate_def split: option.splits if_splits)

lemma verify_email_success:
  assumes "verify_email now token d = (Inr body, d1, mails)"
    and "find (\<lambda>x. verification_token x = Some token) (users d) = Some u"
  shows "users d1 = update_first (\<lambda>x. verification_token x = Some token)
           (\<lambda>_. u\<lparr>is_verified := True, verification_token := None,
                   verification_token_expires := None\<rparr>) (users d)"
  using assms
  by (auto simp: verify_email_def verify_email_token_def split: if_splits)

section \<open>Authentication\<close>

text \<open>
  Claim C5. \<^verbatim>\<open>login\<close> answers an unknown username or e-mail and a known user with a
  wrong password with one and the same failure: status 401, the detail
  "Incorrect username or password" and the same header, whatever the other arguments.
\<close>

theorem login_invalid_credentials_identical:
  assumes unknown: "find (\<lambda>u. username u = name1 \<or> email u = name1) (users d1) = None"
    and known: "find (\<lambda>u. username u = name2 \<or> email u = name2) (users d2) = Some u"
    and mismatch: "\<not> V2 pw2 (password u)"
  shows "login S1 V1 now1 d1 name1 pw1 =
           Inl (HTTPException 401 ''Incorrect username or password''
                  [(''WWW-Authenticate'', ''Bearer'')]) \<and>
         login S2 V2 now2 d2 name2 pw2 = login S1 V1 now1 d1 name1 pw1"
  using assms by (simp add: login_def authenticate_def)

theorem login_invalid_credentials_identical_witness:
  "login default_settings example_verify 0 example_db ''nobody'' ''secret2'' =
     Inl (HTTPException 401 ''Incorrect username or password''
            [(''WWW-Authenticate'', ''Bearer'')]) \<and>
   login default_settings example_verify 0 example_db ''bob'' ''wrong'' =
     login default_settings example_verify 0 example_db ''nobody'' ''secret2''"
  using login_invalid_credentials_identical
    [of "''nobody''" example_db "''bob''" example_db bob example_verify "''wrong''"
        default_settings example_verify 0 "''secret2''" default_settings 0]
  by (simp add: example_defs)

text \<open>
  Claim C8. \<^verbatim>\<open>refresh_token\<close> accepts the presented token only as a refresh token:
  a bad signature, another kind or a passed expiry gives status 401 (invalid refresh
  token); so does a subject that is no longer among the users or is deactivated;
  otherwise the response carries a newly issued access token and a newly issued refresh
  token for that user, each expiring its configured lifetime after now.
\<close>

theorem refresh_token_outcomes:
  "(\<not> signature_ok t \<or> kind t \<noteq> Refresh \<or> exp t < now \<longrightarrow>
      refresh_token S now d t =
        Inl (HTTPException 401 ''Invalid refresh token'' [(''WWW-Authenticate'', ''Bearer'')])) \<and>
   (signature_ok t \<and> kind t = Refresh \<and> now \<le> exp t \<longrightarrow>
      (case find (\<lambda>u. uid u = sub t) (users d) of
         None \<Rightarrow> refresh_token S now d t = Inl (HTTPException 401 ''User not found or inactive'' [])
       | Some u \<Rightarrow>
           if is_active u
           then refresh_token S now d t =
                  Inr \<lparr>tr_access_token =
                         \<lparr>sub = uid u, kind = Access,
                          exp = now + ACCESS_TOKEN_EXPIRE_MINUTES S, signature_ok = True\<rparr>,
                       tr_refresh_token =
                         \<lparr>sub = uid u, kind = Refresh,
                          exp = now + REFRESH_TOKEN_EXPIRE_DAYS S * 24 * 60, signature_ok = True\<rparr>,
                       tr_token_type = ''bearer'',
                       tr_expires_at = now + ACCESS_TOKEN_EXPIRE_MINUTES S,
                       tr_user = u\<rparr>
           else refresh_token S now d t = Inl (HTTPException 401 ''User not found or inactive'' [])))"
  by (auto simp: refresh_token_def verify_token_def create_access_token_def
        create_refresh_token_def split: option.splits)

theorem refresh_token_outcomes_witness:
  "refresh_token default_settings 100 example_db
     \<lparr>sub = 2, kind = Refresh, exp = 50, signature_ok = True\<rparr> =
     Inl (HTTPException 401 ''Invalid refresh token'' [(''WWW-Authenticate'', ''Bearer'')]) \<and>
   refresh_token default_settings 100 example_db
     \<lparr>sub = 3, kind = Refresh, exp = 500, signature_ok = True\<rparr> =
     Inl (HTTPException 401 ''User not found or inactive'' []) \<and>
   refresh_token default_settings 100 example_db
     \<lparr>sub = 2, kind = Refresh, exp = 500, signature_ok = True\<rparr> =
     Inr \<lparr>tr_access_token = \<lparr>sub = 2, kind = Access, exp = 130, signature_ok = True\<rparr>,
          tr_refresh_token = \<lparr>sub = 2, kind = Refresh, exp = 10180, signature_ok = True\<rparr>,
          tr_token_type = ''bearer'', tr_expires_at = 130, tr_user = bob\<rparr>"
  using refresh_token_outcomes
          [of "\<lparr>sub = 2, kind = Refresh, exp = 50, signature_ok = True\<rparr>" 100 default_settings example_db]
        refresh_token_outcomes
          [of "\<lparr>sub = 3, kind = Refresh, exp = 500, signature_ok = True\<rparr>" 100 default_settings example_db]
        refresh_token_outcomes
          [of "\<lparr>sub = 2, kind = Refresh, exp = 500, signature_ok = True\<rparr>" 100 default_settings example_db]
  by (simp add: example_defs)

text \<open>
  Claim C6, as amended. \<^verbatim>\<open>forgot_password\<close> answers every request with one and the
  same success message, whether or not an account has the address.
  \<^verbatim>\<open>resend_verification_email\<close> answers with a generic success message when no account
  has the address, fails with status 400 when the account is already verified, and
  answers with a success message when the account exists and is unverified.
\<close>

theorem anti_enumeration_responses:
  "fst (forgot_password S now tok addr d) =
     Inr ''If the email exists, a password reset link has been sent.'' \<and>
   fst (forgot_password S now tok addr d) = fst (forgot_password S' now' tok' addr' d') \<and>
   (find (\<lambda>u. email u = addr) (users d) = None \<longrightarrow>
      fst (resend_verification_email S now tok addr d) =
        Inr ''If the email exists, a verification link has been sent.'') \<and>
   (\<forall>u. find (\<lambda>u. email u = addr) (users d) = Some u \<and> is_verified u \<longrightarrow>
      fst (resend_verification_email S now tok addr d) =
        Inl (HTTPException 400 ''Email is already verified'' [])) \<and>
   (\<forall>u. find (\<lambda>u. email u = addr) (users d) = Some u \<and> \<not> is_verified u \<longrightarrow>
      (\<exists>m. fst (resend_verification_email S now tok addr d) = Inr m))"
proof -
  have fp: "\<And>S now tok addr d. fst (forgot_password S now tok addr d) =
     Inr ''If the email exists, a password reset link has been sent.''"
    by (simp add: forgot_password_def Let_def split: option.splits)
  have rs: "(find (\<lambda>u. email u = addr) (users d) = None \<longrightarrow>
      fst (resend_verification_email S now tok addr d) =
        Inr ''If the email exists, a verification link has been sent.'') \<and>
   (\<forall>u. find (\<lambda>u. email u = addr) (users d) = Some u \<and> is_verified u \<longrightarrow>
      fst (resend_verification_email S now tok addr d) =
        Inl (HTTPException 400 ''Email is already verified'' [])) \<and>
   (\<forall>u. find (\<lambda>u. email u = addr) (users d) = Some u \<and> \<not> is_verified u \<longrightarrow>
      (\<exists>m. fst (resend_verification_email S now tok addr d) = Inr m))"
    by (simp add: resend_verification_email_def Let_def)
  from fp [of S now tok addr d] fp [of S' now' tok' addr' d'] rs show ?thesis
    by simp
qed

theorem anti_enumeration_responses_witness:
  "fst (forgot_password default_settings 0 ''rt-1'' ''bob@example.com'' example_db) =
     fst (forgot_password default_settings 5 ''rt-2'' ''nobody@example.com'' example_db) \<and>
   fst (resend_verification_email default_settings 0 ''vt-1'' ''nobody@example.com'' example_db) =
     Inr ''If the email exists, a verification link has been sent.'' \<and>
   fst (resend_verification_email default_settings 0 ''vt-1'' ''bob@example.com'' example_db) =
     Inl (HTTPException 400 ''Email is already verified'' [])"
  using anti_enumeration_responses
          [of default_settings 0 "''rt-1''" "''bob@example.com''" example_db
              default_settings 5 "''rt-2''" "''nobody@example.com''" example_db]
        anti_enumeration_responses
          [of default_settings 0 "''vt-1''" "''nobody@example.com''" example_db
              default_settings 0 "''vt-1''" "''nobody@example.com''" example_db]
        anti_enumeration_responses
          [of default_settings 0 "''vt-1''" "''bob@example.com''" example_db
              default_settings 0 "''vt-1''" "''nobody@example.com''" example_db]
  by (simp add: example_defs forgot_password_def resend_verification_email_def
        generate_reset_token_def)

text \<open>
  Claim C6 as stated fails for \<^verbatim>\<open>resend_verification_email\<close>: for the address of a
  verified account the response is the failure 400, for an address without account it is
  the generic success message.
\<close>

theorem resend_verification_reveals_account:
  "find (\<lambda>u. email u = ''bob@example.com'') (users example_db) = Some bob \<and>
   find (\<lambda>u. email u = ''nobody@example.com'') (users example_db) = None \<and>
   fst (resend_verification_email default_settings 0 ''vt-1'' ''bob@example.com'' example_db) =
     Inl (HTTPException 400 ''Email is already verified'' []) \<and>
   fst (resend_verification_email default_settings 0 ''vt-1'' ''nobody@example.com'' example_db) =
     Inr ''If the email exists, a verification link has been sent.''"
  by (simp add: resend_verification_email_def example_defs)

text \<open>
  Claim C1, as amended. A login whose credentials match a user with is_verified false is
  answered with status 403 (verify your email) and carries no token. Once
  \<^verbatim>\<open>verify_email\<close> has succeeded for that user, the same credentials log in provided
  the account is active: the response carries a new access token and a new refresh
  token for the user, now verified. If the account is not active, the same credentials
  are still refused, with status 403 (account is inactive).
\<close>

theorem unverified_login_forbidden:
  assumes match: "authenticate S V now d name pw = Some r"
    and unverified: "\<not> is_verified (ar_user r)"
  shows "login S V now d name pw =
           Inl (HTTPException 403
             ''Please verify your email before logging in. Check your inbox for the verification link.'' []) \<and>
         (\<forall>token now1 body d1 mails now2.
            find (\<lambda>x. verification_token x = Some token) (users d) = Some (ar_user r) \<and>
            verify_email now1 token d = (Inr body, d1, mails) \<and>
            is_active (ar_user r) \<longrightarrow>
            login S V now2 d1 name pw =
              Inr \<lparr>tr_access_token = create_access_token S now2 (uid (ar_user r)),
                   tr_refresh_token = create_refresh_token S now2 (uid (ar_user r)),
                   tr_token_type = ''bearer'',
                   tr_expires_at = now2 + ACCESS_TOKEN_EXPIRE_MINUTES S,
                   tr_user = (ar_user r)\<lparr>is_verified := True, verification_token := None,
                                        verification_token_expires := None\<rparr>\<rparr>) \<and>
         (\<forall>token now1 body d1 mails now2.
            find (\<lambda>x. verification_token x = Some token) (users d) = Some (ar_user r) \<and>
            verify_email now1 token d = (Inr body, d1, mails) \<and>
            \<not> is_active (ar_user r) \<longrightarrow>
            login S V now2 d1 name pw =
              Inl (HTTPException 403 ''Account is inactive. Please contact support.'' []))"
proof -
  let ?u = "ar_user r"
  let ?v = "?u\<lparr>is_verified := True, verification_token := None,
               verification_token_expires := None\<rparr>"
  let ?Q = "\<lambda>u. username u = name \<or> email u = name"
  from authenticate_Some [OF match]
  have found: "find ?Q (users d) = Some ?u" and pw: "V pw (password ?u)" by simp_all
  from found have q: "?Q ?u" by (rule find_holds)
  have before: "login S V now d name pw =
           Inl (HTTPException 403
             ''Please verify your email before logging in. Check your inbox for the verification link.'' [])"
    using match unverified by (simp add: login_def)
  have after: "login S V now2 d1 name pw =
              Inr \<lparr>tr_access_token = create_access_token S now2 (uid ?u),
                   tr_refresh_token = create_refresh_token S now2 (uid ?u),
                   tr_token_type = ''bearer'',
                   tr_expires_at = now2 + ACCESS_TOKEN_EXPIRE_MINUTES S,
                   tr_user = ?v\<rparr>"
    if held: "find (\<lambda>x. verification_token x = Some token) (users d) = Some ?u"
      and ok: "verify_email now1 token d = (Inr body, d1, mails)"
      and active: "is_active ?u"
    for token now1 body d1 mails now2
  proof -
    from verify_email_success [OF ok held]
    have d1: "users d1 = update_first (\<lambda>x. verification_token x = Some token) (\<lambda>_. ?v) (users d)" .
    have "find ?Q (update_first (\<lambda>x. verification_token x = Some token) (\<lambda>_. ?v) (users d)) =
            Some ((\<lambda>_. ?v) ?u)"
      by (rule find_update_first [where f = "\<lambda>_. ?v", OF held found]) (use q in simp)
    then have "find ?Q (users d1) = Some ?v" unfolding d1 by simp
    then show ?thesis using pw active
      by (simp add: login_def authenticate_def)
  qed
  have refused: "login S V now2 d1 name pw =
      Inl (HTTPException 403 ''Account is inactive. Please contact support.'' [])"
    if held: "find (\<lambda>x. verification_token x = Some token) (users d) = Some ?u"
      and ok: "verify_email now1 token d = (Inr body, d1, mails)"
      and inactive: "\<not> is_active ?u"
    for token now1 body d1 mails now2
  proof -
    from verify_email_success [OF ok held]
    have d1: "users d1 = update_first (\<lambda>x. verification_token x = Some token) (\<lambda>_. ?v) (users d)" .
    have "find ?Q (update_first (\<lambda>x. verification_token x = Some token) (\<lambda>_. ?v) (users d)) =
            Some ((\<lambda>_. ?v) ?u)"
      by (rule find_update_first [where f = "\<lambda>_. ?v", OF held found]) (use q in simp)
    then have "find ?Q (users d1) = Some ?v" unfolding d1 by simp
    then show ?thesis using pw inactive
      by (simp add: login_def authenticate_def)
  qed
  from before after refused show ?thesis by blast
qed

theorem unverified_login_forbidden_witness:
  "authenticate default_settings example_verify 0 example_db ''alice'' ''secret1'' \<noteq> None \<and>
   login default_settings example_verify 0 example_db ''alice'' ''secret1'' =
     Inl (HTTPException 403
       ''Please verify your email before logging in. Check your inbox for the verification link.'' []) \<and>
   login default_settings example_verify 20
     (fst (snd (verify_email 10 ''vt-alice'' example_db))) ''alice'' ''secret1'' =
     Inr \<lparr>tr_access_token = \<lparr>sub = 1, kind = Access, exp = 50, signature_ok = True\<rparr>,
          tr_refresh_token = \<lparr>sub = 1, kind = Refresh, exp = 10100, signature_ok = True\<rparr>,
          tr_token_type = ''bearer'', tr_expires_at = 50,
          tr_user = alice\<lparr>is_verified := True, verification_token := None,
                          verification_token_expires := None\<rparr>\<rparr> \<and>
   authenticate default_settings example_verify 0 example_db ''carol'' ''secret3'' \<noteq> None \<and>
   login default_settings example_verify 20
     (fst (snd (verify_email 10 ''vt-carol'' example_db))) ''carol'' ''secret3'' =
     Inl (HTTPException 403 ''Account is inactive. Please contact support.'' [])"
proof -
  let ?r = "\<lparr>ar_access_token = create_access_token default_settings 0 1,
             ar_refresh_token = create_refresh_token default_settings 0 1,
             ar_token_type = ''bearer'',
             ar_expires_at = 0 + ACCESS_TOKEN_EXPIRE_MINUTES default_settings,
             ar_user = alice\<rparr>"
  have match: "authenticate default_settings example_verify 0 example_db ''alice'' ''secret1'' =
      Some ?r"
    by (simp add: authenticate_def example_db_def alice_def example_verify_def)
  have unverified: "\<not> is_verified (ar_user ?r)" by (simp add: alice_def)
  have held: "find (\<lambda>x. verification_token x = Some ''vt-alice'') (users example_db) =
      Some (ar_user ?r)"
    by (simp add: example_db_def alice_def)
  have ok: "verify_email 10 ''vt-alice'' example_db =
      (Inr \<lparr>ve_message = ''Email verified successfully! You can now log in.'',
            ve_email = ''alice@example.com'', ve_is_verified = True\<rparr>,
       fst (snd (verify_email 10 ''vt-alice'' example_db)),
       snd (snd (verify_email 10 ''vt-alice'' example_db)))"
    by (simp add: verify_email_def verify_email_token_def example_db_def alice_def)
  have active: "is_active (ar_user ?r)" by (simp add: alice_def)
  from unverified_login_forbidden [OF match unverified] held ok active
  have "login default_settings example_verify 0 example_db ''alice'' ''secret1'' =
     Inl (HTTPException 403
       ''Please verify your email before logging in. Check your inbox for the verification link.'' [])"
    and "login default_settings example_verify 20
       (fst (snd (verify_email 10 ''vt-alice'' example_db))) ''alice'' ''secret1'' =
      Inr \<lparr>tr_access_token = create_access_token default_settings 20 (uid (ar_user ?r)),
           tr_refresh_token = create_refresh_token default_settings 20 (uid (ar_user ?r)),
                   tr_token_type = ''bearer'',
                   tr_expires_at = 20 + ACCESS_TOKEN_EXPIRE_MINUTES default_settings,
                   tr_user = (ar_user ?r)\<lparr>is_verified := True, verification_token := None,
                                        verification_token_expires := None\<rparr>\<rparr>"
    by blast+
  then have first: "login default_settings example_verify 0 example_db ''alice'' ''secret1'' =
     Inl (HTTPException 403
       ''Please verify your email before logging in. Check your inbox for the verification link.'' [])"
    and second: "login default_settings example_verify 20
       (fst (snd (verify_email 10 ''vt-alice'' example_db))) ''alice'' ''secret1'' =
     Inr \<lparr>tr_access_token = \<lparr>sub = 1, kind = Access, exp = 50, signature_ok = True\<rparr>,
          tr_refresh_token = \<lparr>sub = 1, kind = Refresh, exp = 10100, signature_ok = True\<rparr>,
          tr_token_type = ''bearer'', tr_expires_at = 50,
          tr_user = alice\<lparr>is_verified := True, verification_token := None,
                          verification_token_expires := None\<rparr>\<rparr>"
    by (simp_all add: create_access_token_def create_refresh_token_def default_settings_def
        alice_def)
  let ?c = "\<lparr>ar_access_token = create_access_token default_settings 0 3,
             ar_refresh_token = create_refresh_token default_settings 0 3,
             ar_token_type = ''bearer'',
             ar_expires_at = 0 + ACCESS_TOKEN_EXPIRE_MINUTES default_settings,
             ar_user = carol\<rparr>"
  have match_c: "authenticate default_settings example_verify 0 example_db ''carol'' ''secret3'' =
      Some ?c"
    by (simp add: authenticate_def example_db_def alice_def bob_def carol_def example_verify_def)
  have unverified_c: "\<not> is_verified (ar_user ?c)" by (simp add: carol_def)
  have held_c: "find (\<lambda>x. verification_token x = Some ''vt-carol'') (users example_db) =
      Some (ar_user ?c)"
    by (simp add: example_db_def alice_def bob_def carol_def)
  have ok_c: "verify_email 10 ''vt-carol'' example_db =
      (Inr \<lparr>ve_message = ''Email verified successfully! You can now log in.'',
            ve_email = ''carol@example.com'', ve_is_verified = True\<rparr>,
       fst (snd (verify_email 10 ''vt-carol'' example_db)),
       snd (snd (verify_email 10 ''vt-carol'' example_db)))"
    by (simp add: verify_email_def verify_email_token_def example_db_def alice_def bob_def
        carol_def)
  have inactive_c: "\<not> is_active (ar_user ?c)" by (simp add: carol_def)
  from unverified_login_forbidden [OF match_c unverified_c] held_c ok_c inactive_c
  have third: "login default_settings example_verify 20
       (fst (snd (verify_email 10 ''vt-carol'' example_db))) ''carol'' ''secret3'' =
     Inl (HTTPException 403 ''Account is inactive. Please contact support.'' [])"
    by blast
  from match have m1: "authenticate default_settings example_verify 0 example_db ''alice''
      ''secret1'' \<noteq> None" by simp
  from match_c have m3: "authenticate default_settings example_verify 0 example_db ''carol''
      ''secret3'' \<noteq> None" by simp
  show ?thesis
    apply (intro conjI)
        apply (rule m1)
       apply (rule first)
      apply (rule second)
     apply (rule m3)
    apply (rule third)
    done
qed

text \<open>
  Claim C1 as stated fails for a deactivated account: the credentials match an
  unverified user, \<^verbatim>\<open>verify_email\<close> succeeds for that user, and the same credentials
  are still refused, now with status 403 (account is inactive).
\<close>

theorem inactive_user_verified_still_refused:
  "authenticate default_settings example_verify 0 example_db ''carol'' ''secret3'' \<noteq> None \<and>
   \<not> is_verified carol \<and>
   login default_settings example_verify 0 example_db ''carol'' ''secret3'' =
     Inl (HTTPException 403
       ''Please verify your email before logging in. Check your inbox for the verification link.'' []) \<and>
   fst (verify_email 10 ''vt-carol'' example_db) =
     Inr \<lparr>ve_message = ''Email verified successfully! You can now log in.'',
          ve_email = ''carol@example.com'', ve_is_verified = True\<rparr> \<and>
   login default_settings example_verify 20
     (fst (snd (verify_email 10 ''vt-carol'' example_db))) ''carol'' ''secret3'' =
     Inl (HTTPException 403 ''Account is inactive. Please contact support.'' [])"
  by (simp add: login_def authenticate_def verify_email_def verify_email_token_def example_defs)

text \<open>
  Claim C2. Let \<^verbatim>\<open>forgot_password\<close> issue a reset token to an existing account, the
  random token being one that no stored user holds. It is sent to the account's address.
  A first \<^verbatim>\<open>reset_password\<close> with that token, no later than the expiry and with a
  password of at least 6 characters, succeeds, stores the hash of the new password and
  clears the reset token and its expiry, so that no user holds the token any more. A
  second \<^verbatim>\<open>reset_password\<close> with the same token, at any time and with any password,
  fails with status 400 (invalid reset token) and changes nothing.
\<close>

theorem reset_token_single_use:
  assumes fresh: "\<forall>x\<in>set (users d). reset_token x \<noteq> Some tok"
    and account: "find (\<lambda>x. email x = addr) (users d) = Some u"
    and issued: "forgot_password S now tok addr d = (r0, d1, mails)"
    and in_time: "now1 \<le> now + PASSWORD_RESET_EXPIRE_MINUTES S"
    and acceptable: "6 \<le> length new_password"
    and first_call: "reset_password H now1 tok new_password d1 = (r1, d2)"
    and second_call: "reset_password H now2 tok pw2 d2 = (r2, d3)"
  shows "mails = [PasswordResetEmail (email u) (username u) tok] \<and>
         r1 = Inr ''Password reset successfully. You can now log in with your new password.'' \<and>
         find (\<lambda>x. email x = addr) (users d2) =
           Some (u\<lparr>password := H new_password, reset_token := None,
                   reset_token_expires := None\<rparr>) \<and>
         (\<forall>x\<in>set (users d2). reset_token x \<noteq> Some tok) \<and>
         r2 = Inl (HTTPException 400 ''Invalid reset token'' []) \<and>
         d3 = d2"
proof -
  let ?P = "\<lambda>x. reset_token x = Some tok"
  let ?Q = "\<lambda>x. email x = addr"
  let ?u1 = "generate_reset_token S now tok u"
  let ?clear = "\<lambda>x. x\<lparr>password := H new_password, reset_token := None,
                        reset_token_expires := None\<rparr>"
  have fresh': "\<forall>x\<in>set (users d). \<not> ?P x" using fresh by simp
  from account have addr: "email u = addr" by (rule find_holds)
  from issued account
  have d1: "users d1 = update_first ?Q (\<lambda>_. ?u1) (users d)"
    and mails: "mails = [PasswordResetEmail (email u) (username u) tok]"
    by (auto simp: forgot_password_def Let_def generate_reset_token_def)
  have held: "find ?P (users d1) = Some ?u1"
    unfolding d1
    by (rule find_fresh_update_first [OF fresh' account]) (simp add: generate_reset_token_def)
  have by_mail: "find ?Q (users d1) = Some ?u1"
    unfolding d1
    by (rule find_update_first [OF account account]) (simp add: generate_reset_token_def addr)
  have valid: "verify_reset_token now1 tok ?u1"
    using in_time by (simp add: verify_reset_token_def generate_reset_token_def)
  from first_call held valid acceptable
  have r1: "r1 = Inr ''Password reset successfully. You can now log in with your new password.''"
    and d2: "users d2 = update_first ?P ?clear (users d1)"
    by (auto simp: reset_password_def)
  have stored: "find ?Q (users d2) = Some (?clear ?u1)"
    unfolding d2
    by (rule find_update_first [OF held by_mail]) (simp add: generate_reset_token_def addr)
  have cleared: "?clear ?u1 = u\<lparr>password := H new_password, reset_token := None,
                   reset_token_expires := None\<rparr>"
    by (simp add: generate_reset_token_def)
  have gone: "\<forall>x\<in>set (users d2). \<not> ?P x"
    unfolding d2 d1
    by (rule consumed_update_first [OF fresh']) simp
  then have "find ?P (users d2) = None" by (rule find_none)
  with second_call
  have r2: "r2 = Inl (HTTPException 400 ''Invalid reset token'' [])" and d3: "d3 = d2"
    by (auto simp: reset_password_def)
  from gone have gone': "\<forall>x\<in>set (users d2). reset_token x \<noteq> Some tok" by simp
  from stored cleared have stored': "find ?Q (users d2) =
           Some (u\<lparr>password := H new_password, reset_token := None,
                   reset_token_expires := None\<rparr>)" by simp
  show ?thesis
    apply (intro conjI)
         apply (rule mails)
        apply (rule r1)
       apply (rule stored')
      apply (rule gone')
     apply (rule r2)
    apply (rule d3)
    done
qed

theorem reset_token_single_use_witness:
  "Some ''rt-1'' \<notin> set (map reset_token (users example_db)) \<and>
   find (\<lambda>x. email x = ''bob@example.com'') (users example_db) = Some bob \<and>
   fst (reset_password example_hash 30 ''rt-1'' ''newpass1''
          (fst (snd (forgot_password default_settings 0 ''rt-1'' ''bob@example.com'' example_db)))) =
     Inr ''Password reset successfully. You can now log in with your new password.'' \<and>
   fst (reset_password example_hash 31 ''rt-1'' ''another1''
          (snd (reset_password example_hash 30 ''rt-1'' ''newpass1''
             (fst (snd (forgot_password default_settings 0 ''rt-1'' ''bob@example.com'' example_db)))))) =
     Inl (HTTPException 400 ''Invalid reset token'' [])"
proof -
  let ?X = "forgot_password default_settings 0 ''rt-1'' ''bob@example.com'' example_db"
  let ?Y = "reset_password example_hash 30 ''rt-1'' ''newpass1'' (fst (snd ?X))"
  let ?Z = "reset_password example_hash 31 ''rt-1'' ''another1'' (snd ?Y)"
  have fresh: "\<forall>x\<in>set (users example_db). reset_token x \<noteq> Some ''rt-1''"
    by (simp add: example_defs)
  have account: "find (\<lambda>x. email x = ''bob@example.com'') (users example_db) = Some bob"
    by (simp add: example_defs)
  have issued: "?X = (fst ?X, fst (snd ?X), snd (snd ?X))" by simp
  have in_time: "(30::nat) \<le> 0 + PASSWORD_RESET_EXPIRE_MINUTES default_settings"
    by (simp add: default_settings_def)
  have acceptable: "6 \<le> length ''newpass1''" by simp
  have first_call: "?Y = (fst ?Y, snd ?Y)" by simp
  have second_call: "?Z = (fst ?Z, snd ?Z)" by simp
  have unheld: "Some ''rt-1'' \<notin> set (map reset_token (users example_db))"
    by (simp add: example_defs)
  from reset_token_single_use [OF fresh account issued in_time acceptable first_call second_call]
    unheld account
  show ?thesis by blast
qed

section \<open>Calculations\<close>

text \<open>
  Claim C10. The statistics returned to an authenticated user hold the number of the
  user's calculations, for each operation that occurs among them the number of those
  calculations, and a user object with the id, the username and the e-mail address of
  the requesting user.
\<close>

theorem stats_echo_user:
  "su_id (stats_user (get_calculation_stats current_user d)) = uid current_user \<and>
   su_username (stats_user (get_calculation_stats current_user d)) = username current_user \<and>
   su_email (stats_user (get_calculation_stats current_user d)) = email current_user \<and>
   total_calculations (get_calculation_stats current_user d) =
     length (filter (\<lambda>c. user_id c = uid current_user) (calculations d)) \<and>
   (\<forall>opn. operations (get_calculation_stats current_user d) opn =
      (let n = length (filter (\<lambda>c. user_id c = uid current_user \<and> operation c = opn)
                 (calculations d))
       in if n = 0 then None else Some n))"
  by (auto simp: get_calculation_stats_def Let_def filter_empty_conv image_iff conj_commute)

theorem stats_echo_user_witness:
  "su_id (stats_user (get_calculation_stats bob example_db)) = 2 \<and>
   su_username (stats_user (get_calculation_stats bob example_db)) = ''bob'' \<and>
   su_email (stats_user (get_calculation_stats bob example_db)) = ''bob@example.com'' \<and>
   total_calculations (get_calculation_stats bob example_db) = 2 \<and>
   operations (get_calculation_stats bob example_db) Divide = Some 1 \<and>
   operations (get_calculation_stats bob example_db) Multiply = None"
  using stats_echo_user [of bob example_db]
  by (simp add: example_defs Let_def)




text \<open>
  Claim C4. Whenever \<^verbatim>\<open>update_calculation\<close> succeeds, whichever fields the request
  sets (none at all included), the record it returns is the one now stored under that
  id for that owner, and its result is the value computed from its current operation
  and operands.
\<close>

theorem update_recomputes_result:
  assumes "update_calculation calculation_id update_data current_user d = (Inr c, d')"
  shows "find (owned calculation_id current_user) (calculations d') = Some c \<and>
         (case compute (operation c) (operand1 c) (operand2 c) of
            Inl e \<Rightarrow> False
          | Inr r \<Rightarrow> result c = Some r)"
proof -
  from update_calculation_success [OF assms] obtain c0 where
    found: "find (owned calculation_id current_user) (calculations d) = Some c0" and
    calc: "calculate (setattrs update_data c0) = Inr c" and
    d': "d' = d\<lparr>calculations :=
            update_first (owned calculation_id current_user) (\<lambda>_. c) (calculations d)\<rparr>"
    by blast
  from found have "owned calculation_id current_user c0" by (rule find_holds)
  with calculate_keys [OF calc] setattrs_keys [of update_data c0]
  have own: "owned calculation_id current_user c" by (simp add: owned_def)
  have stored: "find (owned calculation_id current_user) (calculations d') = Some c"
    using find_update_first [OF found found, of "\<lambda>_. c"] own d' by simp
  from calculate_result [OF calc]
  have "case compute (operation c) (operand1 c) (operand2 c) of
          Inl e \<Rightarrow> False | Inr r \<Rightarrow> result c = Some r"
    by auto
  with stored show ?thesis by simp
qed

theorem update_recomputes_result_witness:
  "update_calculation 20 [] bob stale_db =
     (Inr \<lparr>calc_id = 20, user_id = 2, operation = Multiply, operand1 = 4, operand2 = 5,
           result = Some 20\<rparr>,
      \<lparr>users = [alice, bob],
       calculations = [\<lparr>calc_id = 20, user_id = 2, operation = Multiply, operand1 = 4,
                        operand2 = 5, result = Some 20\<rparr>]\<rparr>) \<and>
   find (owned 20 bob)
     [\<lparr>calc_id = 20, user_id = 2, operation = Multiply, operand1 = 4,
       operand2 = 5, result = Some 20\<rparr>] =
     Some \<lparr>calc_id = 20, user_id = 2, operation = Multiply, operand1 = 4, operand2 = 5,
           result = Some (20::real)\<rparr>"
proof -
  have run: "update_calculation 20 [] bob stale_db =
     (Inr \<lparr>calc_id = 20, user_id = 2, operation = Multiply, operand1 = 4, operand2 = 5,
           result = Some 20\<rparr>,
      \<lparr>users = [alice, bob],
       calculations = [\<lparr>calc_id = 20, user_id = 2, operation = Multiply, operand1 = 4,
                        operand2 = 5, result = Some 20\<rparr>]\<rparr>)"
    by (simp add: update_calculation_def stale_db_def owned_def bob_def calculate_def
          compute_def)
  from update_recomputes_result [OF run] run show ?thesis by simp
qed

text \<open>
  Claim C3. Reading, updating and deleting a calculation are scoped by owner. When no
  calculation with the requested id belongs to the requesting user (there is none with
  that id, or it is another user's), get, update and delete all fail with the same
  status 404 and leave the store as it was. A record returned by get, update, list or
  create belongs to the requesting user, and update, delete and create leave the
  records of every other user exactly as they were.
\<close>

theorem calculations_ownership_scoped:
  "((\<forall>c\<in>set (calculations d). calc_id c = i \<longrightarrow> user_id c \<noteq> uid u) \<longrightarrow>
      get_calculation i u d = Inl (HTTPException 404 ''Calculation not found'' []) \<and>
      update_calculation i fs u d = (Inl (HTTPException 404 ''Calculation not found'' []), d) \<and>
      delete_calculation i u d = (Inl (HTTPException 404 ''Calculation not found'' []), d)) \<and>
   (\<forall>c. get_calculation i u d = Inr c \<longrightarrow> c \<in> set (calculations d) \<and> user_id c = uid u) \<and>
   (\<forall>c. fst (update_calculation i fs u d) = Inr c \<longrightarrow> user_id c = uid u) \<and>
   (\<forall>cs. list_calculations scan skip limit u d = Inr cs \<longrightarrow>
      (\<forall>c\<in>set cs. user_id c = uid u)) \<and>
   (\<forall>c. fst (create_calculation new_id u body d) = Inr c \<longrightarrow> user_id c = uid u) \<and>
   filter (\<lambda>c. user_id c \<noteq> uid u) (calculations (snd (update_calculation i fs u d))) =
     filter (\<lambda>c. user_id c \<noteq> uid u) (calculations d) \<and>
   filter (\<lambda>c. user_id c \<noteq> uid u) (calculations (snd (delete_calculation i u d))) =
     filter (\<lambda>c. user_id c \<noteq> uid u) (calculations d) \<and>
   filter (\<lambda>c. user_id c \<noteq> uid u) (calculations (snd (create_calculation new_id u body d))) =
     filter (\<lambda>c. user_id c \<noteq> uid u) (calculations d)"
proof -
  have nf: "(\<forall>c\<in>set (calculations d). calc_id c = i \<longrightarrow> user_id c \<noteq> uid u) \<longrightarrow>
      get_calculation i u d = Inl (HTTPException 404 ''Calculation not found'' []) \<and>
      update_calculation i fs u d = (Inl (HTTPException 404 ''Calculation not found'' []), d) \<and>
      delete_calculation i u d = (Inl (HTTPException 404 ''Calculation not found'' []), d)"
  proof
    assume "\<forall>c\<in>set (calculations d). calc_id c = i \<longrightarrow> user_id c \<noteq> uid u"
    then have "find (owned i u) (calculations d) = None" by (rule not_owned_find)
    then show "get_calculation i u d = Inl (HTTPException 404 ''Calculation not found'' []) \<and>
      update_calculation i fs u d = (Inl (HTTPException 404 ''Calculation not found'' []), d) \<and>
      delete_calculation i u d = (Inl (HTTPException 404 ''Calculation not found'' []), d)"
      by (simp add: get_calculation_def update_calculation_def delete_calculation_def)
  qed
  have get: "\<forall>c. get_calculation i u d = Inr c \<longrightarrow> c \<in> set (calculations d) \<and> user_id c = uid u"
    by (auto simp: get_calculation_def owned_def split: option.splits
          dest: find_member find_holds)
  have upd: "\<forall>c. fst (update_calculation i fs u d) = Inr c \<longrightarrow> user_id c = uid u"
    by (simp add: update_calculation_returns_own)
  have lst: "\<forall>cs. list_calculations scan skip limit u d = Inr cs \<longrightarrow>
      (\<forall>c\<in>set cs. user_id c = uid u)"
    using list_calculations_own [of scan skip limit u d] by simp
  have crt: "\<forall>c. fst (create_calculation new_id u body d) = Inr c \<longrightarrow> user_id c = uid u"
    by (simp add: create_calculation_returns_own)
  show ?thesis
    apply (intro conjI)
           apply (rule nf)
          apply (rule get)
         apply (rule upd)
        apply (rule lst)
       apply (rule crt)
      apply (rule update_calculation_others)
     apply (rule delete_calculation_others)
    apply (rule create_calculation_others)
    done
qed

theorem calculations_ownership_scoped_witness:
  "get_calculation 10 bob example_db = Inl (HTTPException 404 ''Calculation not found'' []) \<and>
   update_calculation 10 [Operand1 7] bob example_db =
     (Inl (HTTPException 404 ''Calculation not found'' []), example_db) \<and>
   delete_calculation 10 bob example_db =
     (Inl (HTTPException 404 ''Calculation not found'' []), example_db) \<and>
   get_calculation 99 bob example_db = Inl (HTTPException 404 ''Calculation not found'' [])"
  using calculations_ownership_scoped [of example_db 10 bob "[Operand1 7]" rev 0 100 13
          "\<lparr>cb_operation = Add, cb_operand1 = 1, cb_operand2 = 2\<rparr>"]
        calculations_ownership_scoped [of example_db 99 bob "[]" rev 0 100 13
          "\<lparr>cb_operation = Add, cb_operand1 = 1, cb_operand2 = 2\<rparr>"]
  by (simp add: example_defs)




end
